theory Spec2Isabelle
  imports Complex_Main "HOL-Library.Log_Nat"
begin

section \<open>Python values used by \<^verbatim>\<open>main.py\<close>\<close>

text \<open>
  Strings are lists of characters with code points below 256. Python's \<^verbatim>\<open>str\<close>
  of an \<^verbatim>\<open>int\<close> is its decimal numeral, with a leading minus sign for a negative
  number.
\<close>

definition digit_char :: "nat \<Rightarrow> char" where
  "digit_char d = char_of (48 + d)"

fun str_nat_fuel :: "nat \<Rightarrow> nat \<Rightarrow> string" where
  "str_nat_fuel 0 n = [digit_char (n mod 10)]"
| "str_nat_fuel (Suc k) n =
     (if n < 10 then [digit_char n] else str_nat_fuel k (n div 10) @ [digit_char (n mod 10)])"

definition str_nat :: "nat \<Rightarrow> string" where
  "str_nat n = str_nat_fuel n n"

definition str_int :: "int \<Rightarrow> string" where
  "str_int i = (if i < 0 then CHR ''-'' # str_nat (nat (- i)) else str_nat (nat i))"

text \<open>\<^verbatim>\<open>s.startswith(p)\<close>, \<^verbatim>\<open>s.endswith(p)\<close> and \<^verbatim>\<open>c in s\<close>.\<close>

fun startswith :: "string \<Rightarrow> string \<Rightarrow> bool" where
  "startswith s [] = True"
| "startswith [] (p # ps) = False"
| "startswith (c # cs) (p # ps) = (c = p \<and> startswith cs ps)"

definition endswith :: "string \<Rightarrow> string \<Rightarrow> bool" where
  "endswith s p = startswith (rev s) (rev p)"

text \<open>
  \<^verbatim>\<open>str.split()\<close> with no argument cuts at runs of whitespace and drops empty pieces.
  Among the code points below 256, \<^verbatim>\<open>str.isspace\<close> holds of 9 to 13, 28 to 32, 133
  and 160.
\<close>

definition is_space :: "char \<Rightarrow> bool" where
  "is_space c = (of_char c \<in> {9, 10, 11, 12, 13, 28, 29, 30, 31, 32, 133, 160 :: nat})"

fun split_from :: "string \<Rightarrow> string \<Rightarrow> string list" where
  "split_from cur [] = (if cur = [] then [] else [cur])"
| "split_from cur (c # cs) =
     (if is_space c then (if cur = [] then [] else [cur]) @ split_from [] cs
      else split_from (cur @ [c]) cs)"

definition split :: "string \<Rightarrow> string list" where
  "split s = split_from [] s"

text \<open>\<^verbatim>\<open>part.replace("%", "")\<close> deletes every percent sign of the token.\<close>

definition replace_percent :: "string \<Rightarrow> string" where
  "replace_percent s = filter (\<lambda>c. c \<noteq> CHR ''%'') s"

subsection \<open>Reading numbers: \<^verbatim>\<open>int(str)\<close>, \<^verbatim>\<open>float(str)\<close>, \<^verbatim>\<open>int(float)\<close>\<close>

text \<open>
  The two conversions are only ever applied to a token of \<^verbatim>\<open>split()\<close> with its
  percent signs deleted, which holds no whitespace (lemma \<open>split_no_space\<close> below), so
  the stripping of surrounding whitespace that both do first is left out. A digit part is
  a run of decimal digits in which single underscores may separate digits. Strings that do
  not follow the grammar raise \<^verbatim>\<open>ValueError\<close>; \<^verbatim>\<open>int\<close> of an infinite float raises
  \<^verbatim>\<open>OverflowError\<close>, which is not a \<^verbatim>\<open>ValueError\<close>. The interpreter's limit on
  the number of digits of a string given to \<^verbatim>\<open>int\<close> (4300 unless configured) is not
  part of the model.
\<close>

datatype conv_error = ValueError | OverflowError

definition is_digit :: "char \<Rightarrow> bool" where
  "is_digit c = (48 \<le> (of_char c :: nat) \<and> (of_char c :: nat) \<le> 57)"

definition digit_val :: "char \<Rightarrow> int" where
  "digit_val c = of_char c - 48"

fun digitpart :: "string \<Rightarrow> int list option" where
  "digitpart [] = None"
| "digitpart [c] = (if is_digit c then Some [digit_val c] else None)"
| "digitpart (c # d # cs) =
     (if \<not> is_digit c then None
      else if d = CHR ''_'' then map_option ((#) (digit_val c)) (digitpart cs)
      else map_option ((#) (digit_val c)) (digitpart (d # cs)))"

definition decimal :: "int list \<Rightarrow> int" where
  "decimal ds = foldl (\<lambda>a d. 10 * a + d) 0 ds"

definition split_sign :: "string \<Rightarrow> bool \<times> string" where
  "split_sign s =
     (case s of
        [] \<Rightarrow> (False, s)
      | c # cs \<Rightarrow>
          if c = CHR ''-'' then (True, cs) else if c = CHR ''+'' then (False, cs) else (False, s))"

definition int_of_token :: "string \<Rightarrow> conv_error + int" where
  "int_of_token s =
     (let (neg, body) = split_sign s in
      case digitpart body of
        None \<Rightarrow> Inl ValueError
      | Some ds \<Rightarrow> Inr (if neg then - decimal ds else decimal ds))"

text \<open>
  A Python float is an IEEE 754 binary64 number: a rational that is a multiple of
  \<open>2 ^ e\<close> with a 53-bit multiplier and \<open>- 1074 \<le> e\<close>, or an infinity, or NaN. The
  conversion from a decimal string rounds the exact value to the nearest such number,
  ties to the even multiplier, and gives an infinity from \<open>2 ^ 1024\<close> on.
\<close>

datatype pyfloat = Finite rat | PosInf | NegInf | NaN

definition pow2 :: "int \<Rightarrow> rat" where
  "pow2 k = (if 0 \<le> k then 2 ^ nat k else 1 / 2 ^ nat (- k))"

definition pow10 :: "int \<Rightarrow> rat" where
  "pow10 k = (if 0 \<le> k then 10 ^ nat k else 1 / 10 ^ nat (- k))"

definition floor_log2 :: "rat \<Rightarrow> int" where
  "floor_log2 q =
     (let (a, b) = quotient_of q; k = bitlen a - bitlen b
      in if pow2 k \<le> q then k else k - 1)"

definition round_half_even :: "rat \<Rightarrow> int" where
  "round_half_even q =
     (let f = \<lfloor>q\<rfloor>; r = q - of_int f
      in if r < 1 / 2 then f else if 1 / 2 < r then f + 1 else if even f then f else f + 1)"

definition round_double :: "rat \<Rightarrow> rat option" where
  "round_double q =
     (if q = 0 then Some 0
      else let e = max (floor_log2 q - 52) (- 1074);
               v = of_int (round_half_even (q / pow2 e)) * pow2 e
           in if 2 ^ 1024 \<le> v then None else Some v)"

definition double_of :: "bool \<Rightarrow> rat \<Rightarrow> pyfloat" where
  "double_of neg q =
     (case round_double q of
        None \<Rightarrow> if neg then NegInf else PosInf
      | Some v \<Rightarrow> Finite (if neg then - v else v))"

definition lower :: "string \<Rightarrow> string" where
  "lower s =
     map (\<lambda>c. if 65 \<le> (of_char c :: nat) \<and> (of_char c :: nat) \<le> 90
               then char_of (of_char c + 32 :: nat) else c) s"

definition is_exp_mark :: "char \<Rightarrow> bool" where
  "is_exp_mark c = (c = CHR ''e'' \<or> c = CHR ''E'')"

text \<open>\<^verbatim>\<open>number ::= [digitpart] "." digitpart | digitpart ["."]\<close>\<close>

definition number :: "string \<Rightarrow> (int list \<times> int list) option" where
  "number s =
     (let ip = takeWhile (\<lambda>c. c \<noteq> CHR ''.'') s; rest = dropWhile (\<lambda>c. c \<noteq> CHR ''.'') s
      in case rest of
           [] \<Rightarrow> map_option (\<lambda>ds. (ds, [])) (digitpart ip)
         | _ # fp \<Rightarrow>
             if ip = [] then map_option (\<lambda>ds. ([], ds)) (digitpart fp)
             else if fp = [] then map_option (\<lambda>ds. (ds, [])) (digitpart ip)
             else (case (digitpart ip, digitpart fp) of
                     (Some a, Some b) \<Rightarrow> Some (a, b)
                   | _ \<Rightarrow> None))"

text \<open>\<^verbatim>\<open>exponent ::= ("e" | "E") ["+" | "-"] digitpart\<close>, or nothing.\<close>

definition exponent :: "string \<Rightarrow> int option" where
  "exponent s =
     (case s of
        [] \<Rightarrow> Some 0
      | _ # t \<Rightarrow>
          (let (neg, body) = split_sign t in
           map_option (\<lambda>ds. if neg then - decimal ds else decimal ds) (digitpart body)))"

definition floatnumber :: "string \<Rightarrow> rat option" where
  "floatnumber s =
     (let m = takeWhile (\<lambda>c. \<not> is_exp_mark c) s; x = dropWhile (\<lambda>c. \<not> is_exp_mark c) s
      in case (number m, exponent x) of
           (Some (ip, fp), Some ex) \<Rightarrow>
             Some (of_int (decimal (ip @ fp)) * pow10 (ex - int (length fp)))
         | _ \<Rightarrow> None)"

definition float_of_token :: "string \<Rightarrow> conv_error + pyfloat" where
  "float_of_token s =
     (let (neg, body) = split_sign s in
      if lower body = ''inf'' \<or> lower body = ''infinity'' then Inr (if neg then NegInf else PosInf)
      else if lower body = ''nan'' then Inr NaN
      else case floatnumber body of
             None \<Rightarrow> Inl ValueError
           | Some q \<Rightarrow> Inr (double_of neg q))"

text \<open>\<^verbatim>\<open>int(x)\<close> of a float truncates towards zero.\<close>

definition int_of_float :: "pyfloat \<Rightarrow> conv_error + int" where
  "int_of_float x =
     (case x of
        Finite v \<Rightarrow> Inr (if 0 \<le> v then \<lfloor>v\<rfloor> else - \<lfloor>- v\<rfloor>)
      | NaN \<Rightarrow> Inl ValueError
      | _ \<Rightarrow> Inl OverflowError)"

section \<open>The download runner: \<^verbatim>\<open>DownloadWorker\<close>\<close>

subsection \<open>Building the command line (lines 216 to 233)\<close>

text \<open>
  The fields of a \<^verbatim>\<open>DownloadWorker\<close>, as its constructor stores them. The output
  template is \<^verbatim>\<open>os.path.join(self.output_path, "%(title)s.%(ext)s")\<close>; the join
  of the running platform is a parameter of the model.
\<close>

record download_job =
  url :: string
  output_path :: string
  format_choice :: string
  yt_dlp_exec :: string
  ffmpeg_exec :: string

definition format_args :: "string \<Rightarrow> string list" where
  "format_args fmt =
     (if fmt = ''mp3'' then [''-x'', ''--audio-format'', ''mp3'', ''--audio-quality'', ''0'']
      else if fmt = ''best'' then
        [''-f'', ''bestvideo[ext=mp4]+bestaudio[ext=m4a]/best[ext=mp4]/best'']
      else [''-f'', fmt])"

definition command_head :: "(string \<Rightarrow> string \<Rightarrow> string) \<Rightarrow> download_job \<Rightarrow> string list" where
  "command_head join job =
     [yt_dlp_exec job,
      ''--external-downloader'', ''aria2c'',
      ''--external-downloader-args'', ''-x 16 -s 16 -k 1M'',
      ''--ffmpeg-location'', ffmpeg_exec job,
      ''-o'', join (output_path job) ''%(title)s.%(ext)s'']"

definition build_command :: "(string \<Rightarrow> string \<Rightarrow> string) \<Rightarrow> download_job \<Rightarrow> string list" where
  "build_command join job =
     command_head join job @ format_args (format_choice job) @ [url job]"

text \<open>\<^verbatim>\<open>posixpath.join\<close> on two arguments.\<close>

definition posix_join :: "string \<Rightarrow> string \<Rightarrow> string" where
  "posix_join a b =
     (if startswith b ''/'' then b
      else if a = [] \<or> endswith a ''/'' then a @ b
      else a @ ''/'' @ b)"

subsection \<open>Streaming the output and extracting progress (lines 245 to 261)\<close>

text \<open>
  The three signals of a \<^verbatim>\<open>DownloadWorker\<close>. A run is the list of the signals it
  emits, each with the arguments given to \<^verbatim>\<open>emit\<close>; how Qt carries an integer
  argument to the slot is outside the program.
\<close>

datatype signal =
  UpdateProgress string
| UpdateProgressBar int string
| DownloadFinished bool string

text \<open>Lines 253 to 257: the value of a token that ends in a percent sign.\<close>

definition progress_value :: "string \<Rightarrow> conv_error + int" where
  "progress_value part =
     (let progress_str = replace_percent part in
      if CHR ''.'' \<in> set progress_str then
        (case float_of_token progress_str of
           Inl e \<Rightarrow> Inl e
         | Inr x \<Rightarrow> int_of_float x)
      else int_of_token progress_str)"

text \<open>
  Lines 251 to 259: the loop over the parts stops at the first part ending in a percent
  sign, with its value or with the exception its conversion raises.
\<close>

fun scan_parts :: "string list \<Rightarrow> conv_error + int option" where
  "scan_parts [] = Inr None"
| "scan_parts (part # parts) =
     (if endswith part ''%'' then
        (case progress_value part of Inl e \<Rightarrow> Inl e | Inr v \<Rightarrow> Inr (Some v))
      else scan_parts parts)"

text \<open>
  Lines 246 to 261, the body of the loop over the output lines: the signals emitted for
  one line and, when an exception leaves the body, its message \<^verbatim>\<open>str(e)\<close>. The
  handler of line 260 catches \<^verbatim>\<open>ValueError\<close> only, so the \<^verbatim>\<open>OverflowError\<close> of
  \<^verbatim>\<open>int\<close> on an infinite float leaves the body.
\<close>

definition process_line :: "string \<Rightarrow> signal list \<times> string option" where
  "process_line line =
     (if CHR ''%'' \<in> set line then
        (case scan_parts (split line) of
           Inr (Some v) \<Rightarrow>
             ([UpdateProgress line,
               UpdateProgressBar v (''Downloading: '' @ str_int v @ ''%'')], None)
         | Inr None \<Rightarrow> ([UpdateProgress line], None)
         | Inl ValueError \<Rightarrow> ([UpdateProgress line], None)
         | Inl OverflowError \<Rightarrow>
             ([UpdateProgress line], Some ''cannot convert float infinity to integer''))
      else ([UpdateProgress line], None))"

text \<open>The loop of line 245: an exception in the body ends it.\<close>

fun stream_output :: "string list \<Rightarrow> signal list \<times> string option" where
  "stream_output [] = ([], None)"
| "stream_output (line # rest) =
     (case process_line line of
        (evs, Some e) \<Rightarrow> (evs, Some e)
      | (evs, None) \<Rightarrow> (case stream_output rest of (evs', r) \<Rightarrow> (evs @ evs', r)))"

text \<open>
  The specification's wording of the search, to compare the loop with: the first token of
  the line, split at whitespace, that ends in a percent sign.
\<close>

definition first_percent_token :: "string \<Rightarrow> string option" where
  "first_percent_token line = find (\<lambda>p. endswith p ''%'') (split line)"

subsection \<open>The whole of \<^verbatim>\<open>DownloadWorker.run\<close> (lines 207 to 273)\<close>

text \<open>
  What \<^verbatim>\<open>subprocess.Popen\<close> does with a command is the environment's choice: it
  raises \<^verbatim>\<open>FileNotFoundError\<close>, or another exception with a message, or it starts a
  process, of which the model keeps the lines its output yields up to end of file and the
  return code that \<^verbatim>\<open>wait()\<close> then stores. The three handlers are those of lines
  270 to 273 and of the loop body.
\<close>

datatype popen_result =
  FileNotFound
| PopenError string
| Process "string list" int

definition run :: "(string \<Rightarrow> string \<Rightarrow> string) \<Rightarrow> (string list \<Rightarrow> popen_result) \<Rightarrow>
    download_job \<Rightarrow> signal list" where
  "run join popen job =
     [UpdateProgress (''Starting download from: '' @ url job @ [CHR 0x0A]),
      UpdateProgress (''Saving to: '' @ output_path job @ [CHR 0x0A]),
      UpdateProgressBar 0 ''Downloading...''] @
     (case popen (build_command join job) of
        FileNotFound \<Rightarrow>
          [DownloadFinished False
             ''Error: yt-dlp or ffmpeg executable not found. Ensure paths are correct and executables exist.'']
      | PopenError msg \<Rightarrow>
          [DownloadFinished False (''An unexpected error occurred: '' @ msg)]
      | Process lines returncode \<Rightarrow>
          (case stream_output lines of
             (evs, Some e) \<Rightarrow>
               evs @ [DownloadFinished False (''An unexpected error occurred: '' @ e)]
           | (evs, None) \<Rightarrow>
               evs @
               [if returncode = 0 then DownloadFinished True ''Download completed successfully!''
                else DownloadFinished False
                       (''Download failed with error code: '' @ str_int returncode)]))"

subsection \<open>The window's side of a download (lines 425 to 473)\<close>

text \<open>
  The widgets the slots touch. A \<^verbatim>\<open>QProgressBar\<close> keeps its range of 0 to 100, which
  the program never changes, and \<^verbatim>\<open>setValue\<close> leaves the value alone when given one
  outside the range.
\<close>

record ui_state =
  download_button_enabled :: bool
  url_input_enabled :: bool
  format_combo_enabled :: bool
  output_log :: "string list"
  status_message :: string
  progress_bar_value :: int
  progress_bar_format :: string
  message_boxes :: "(string \<times> string \<times> string) list"

definition setValue :: "int \<Rightarrow> ui_state \<Rightarrow> ui_state" where
  "setValue v ui = (if 0 \<le> v \<and> v \<le> 100 then ui\<lparr>progress_bar_value := v\<rparr> else ui)"

definition on_download_finished :: "bool \<Rightarrow> string \<Rightarrow> ui_state \<Rightarrow> ui_state" where
  "on_download_finished success message ui =
     (let ui1 = ui\<lparr>download_button_enabled := True, url_input_enabled := True,
                     format_combo_enabled := True,
                     output_log := output_log ui @ [CHR 0x0A # message],
                     status_message := message\<rparr>;
          ui2 = setValue (if success then 100 else 0) ui1;
          ui3 = ui2\<lparr>progress_bar_format := (if success then ''Done!'' else ''Failed!'')\<rparr>
      in if \<not> success
         then ui3\<lparr>message_boxes := message_boxes ui3 @ [(''critical'', ''Download Failed'', message)]\<rparr>
         else ui3\<lparr>message_boxes :=
                     message_boxes ui3 @ [(''information'', ''Download Complete'', message)]\<rparr>)"

text \<open>The connections of lines 454 to 457: what the window does with each signal.\<close>

fun deliver :: "ui_state \<Rightarrow> signal \<Rightarrow> ui_state" where
  "deliver ui (UpdateProgress line) = ui\<lparr>output_log := output_log ui @ [line]\<rparr>"
| "deliver ui (UpdateProgressBar v text) = (setValue v ui)\<lparr>progress_bar_format := text\<rparr>"
| "deliver ui (DownloadFinished success message) = on_download_finished success message ui"

definition finished :: "signal list \<Rightarrow> (bool \<times> string) list" where
  "finished evs = concat (map (\<lambda>ev. case ev of DownloadFinished ok msg \<Rightarrow> [(ok, msg)] | _ \<Rightarrow> []) evs)"

section \<open>The tool provisioner: \<^verbatim>\<open>SetupWorker\<close>\<close>

subsection \<open>Paths and the file system\<close>

text \<open>
  A path is a starting path, given as a string, followed by the names joined to it with
  \<^verbatim>\<open>os.path.join\<close>; every name the program joins is a single relative component.
  The file system maps the paths that exist to what is there: a regular file, with the
  flag telling whether its execute permission is set, or a directory.
\<close>

datatype path = Base string | Join path string

datatype node = File bool | Dir

type_synonym filesystem = "(path \<times> node) list"

fun under :: "path \<Rightarrow> path \<Rightarrow> bool" where
  "under d (Base s) = (d = Base s)"
| "under d (Join q n) = (d = Join q n \<or> under d q)"

definition path_exists :: "filesystem \<Rightarrow> path \<Rightarrow> bool" where
  "path_exists fs p = (map_of fs p \<noteq> None)"

definition isfile :: "filesystem \<Rightarrow> path \<Rightarrow> bool" where
  "isfile fs p = (case map_of fs p of Some (File x) \<Rightarrow> True | _ \<Rightarrow> False)"

definition isdir :: "filesystem \<Rightarrow> path \<Rightarrow> bool" where
  "isdir fs p = (map_of fs p = Some Dir)"

definition put :: "filesystem \<Rightarrow> path \<Rightarrow> node \<Rightarrow> filesystem" where
  "put fs p n = (p, n) # filter (\<lambda>e. fst e \<noteq> p) fs"

definition unlink :: "filesystem \<Rightarrow> path \<Rightarrow> filesystem" where
  "unlink fs p = filter (\<lambda>e. fst e \<noteq> p) fs"

definition remove_tree :: "filesystem \<Rightarrow> path \<Rightarrow> filesystem" where
  "remove_tree fs d = filter (\<lambda>e. \<not> under d (fst e)) fs"

text \<open>
  \<^verbatim>\<open>os.listdir\<close>: the names directly below a directory. Python leaves their order
  open; the program only looks at the length of the list and at its only element.
\<close>

definition listdir :: "filesystem \<Rightarrow> path \<Rightarrow> string list" where
  "listdir fs d =
     remdups (concat (map (\<lambda>e. case fst e of Join q n \<Rightarrow> if q = d then [n] else []
                                   | Base s \<Rightarrow> []) fs))"

text \<open>The directories above a path, outermost first, as far as the model knows them.\<close>

fun parents :: "path \<Rightarrow> path list" where
  "parents (Base s) = []"
| "parents (Join q n) = parents q @ [q]"

definition parent_ok :: "filesystem \<Rightarrow> path \<Rightarrow> bool" where
  "parent_ok fs p = (case p of Base s \<Rightarrow> True | Join q n \<Rightarrow> isdir fs q)"

subsection \<open>Exceptions, signals and the outside world\<close>

text \<open>
  The handlers of lines 137 to 142 tell three classes apart; every other exception is an
  \<^verbatim>\<open>Exception\<close> of which only \<^verbatim>\<open>str(e)\<close> is used.
\<close>

datatype exn =
  RequestException string
| BadZipFile string
| ReadError string
| OtherException string

datatype setup_signal =
  UpdateStatus string
| SetupProgressBar int string
| SetupFinished bool string

text \<open>
  What a request for a URL gives: a \<^verbatim>\<open>RequestException\<close> from \<^verbatim>\<open>requests.get\<close> or
  \<^verbatim>\<open>raise_for_status\<close>, with its message; or a response with the integer read from
  its \<^verbatim>\<open>content-length\<close> header (0 without one), the lengths of the chunks that
  \<^verbatim>\<open>iter_content\<close> yields, and the message of the \<^verbatim>\<open>RequestException\<close> that ends
  the iteration early, if one does.
\<close>

datatype fetch_result =
  FetchFailed string
| Fetched int "nat list" "string option"

datatype archive_format = Zip | TarXz

text \<open>
  What \<^verbatim>\<open>extractall\<close> does with the archive: it raises, or it writes the archive's
  members, each with its names relative to the target directory and what it is on disk
  afterwards. The library reports an archive it cannot read with its own exception class,
  \<^verbatim>\<open>zipfile.BadZipFile\<close> or \<^verbatim>\<open>tarfile.ReadError\<close>; anything else it raises is
  some other \<^verbatim>\<open>Exception\<close>. An extraction that raises is taken to have written
  nothing.
\<close>

datatype unpack_error = BadArchive string | UnpackOther string

datatype unpack_result =
  UnpackRaises unpack_error
| Members "(string list \<times> node) list"

datatype os_failure =
  NotADirectory path
| IsADirectory path
| FileExists path
| NoSuchFile path

record env =
  platform :: string
  fetch :: "string \<Rightarrow> fetch_result"
  unpack :: "archive_format \<Rightarrow> path \<Rightarrow> unpack_result"
  strerror :: "os_failure \<Rightarrow> string"

record world =
  files :: filesystem
  signals :: "setup_signal list"
  requests :: "string list"

type_synonym 'a outcome = "world \<times> (exn + 'a)"

text \<open>Running one step after another; an exception skips what follows.\<close>

definition and_then ::
  "(world \<Rightarrow> 'a outcome) \<Rightarrow> ('a \<Rightarrow> world \<Rightarrow> 'b outcome) \<Rightarrow> world \<Rightarrow> 'b outcome" where
  "and_then m f w = (case m w of (w', Inl e) \<Rightarrow> (w', Inl e) | (w', Inr a) \<Rightarrow> f a w')"

definition skip :: "world \<Rightarrow> unit outcome" where
  "skip w = (w, Inr ())"

definition raise :: "exn \<Rightarrow> world \<Rightarrow> 'a outcome" where
  "raise e w = (w, Inl e)"

definition emit :: "setup_signal \<Rightarrow> world \<Rightarrow> unit outcome" where
  "emit s w = (w\<lparr>signals := signals w @ [s]\<rparr>, Inr ())"

definition os_raise :: "env \<Rightarrow> os_failure \<Rightarrow> world \<Rightarrow> 'a outcome" where
  "os_raise ev f w = (w, Inl (OtherException (strerror ev f)))"

subsection \<open>Paths as text\<close>

text \<open>
  The string of a path, as \<^verbatim>\<open>os.path.join\<close> builds it from a directory and a
  relative name: the separator is put between them unless the directory is empty or ends
  in one. (On Windows a directory that is a bare drive such as \<^verbatim>\<open>C:\<close> is joined
  without a separator; the program's tools directory is an absolute path below a drive.)
\<close>

definition sep :: "env \<Rightarrow> string" where
  "sep ev = (if platform ev = ''win32'' then [CHR 0x5C] else ''/'')"

fun path_str :: "env \<Rightarrow> path \<Rightarrow> string" where
  "path_str ev (Base s) = s"
| "path_str ev (Join q n) =
     (let a = path_str ev q in
      if a = [] \<or> endswith a ''/'' \<or> (platform ev = ''win32'' \<and> endswith a [CHR 0x5C]) then a @ n
      else a @ sep ev @ n)"

fun last_name :: "path \<Rightarrow> string" where
  "last_name (Base s) = s"
| "last_name (Join q n) = n"

text \<open>\<^verbatim>\<open>repr\<close> of a string and of a list of strings, for code points below 256.\<close>

definition hex_digit :: "nat \<Rightarrow> char" where
  "hex_digit d = (if d < 10 then char_of (48 + d) else char_of (87 + d))"

definition printable :: "char \<Rightarrow> bool" where
  "printable c = (let k = (of_char c :: nat) in 32 \<le> k \<and> k < 127 \<or> 161 \<le> k \<and> k \<noteq> 173)"

definition repr_char :: "char \<Rightarrow> char \<Rightarrow> string" where
  "repr_char quote c =
     (if c = quote \<or> c = CHR 0x5C then [CHR 0x5C, c]
      else if c = CHR 0x09 then [CHR 0x5C, CHR ''t'']
      else if c = CHR 0x0A then [CHR 0x5C, CHR ''n'']
      else if c = CHR 0x0D then [CHR 0x5C, CHR ''r'']
      else if printable c then [c]
      else [CHR 0x5C, CHR ''x'', hex_digit (of_char c div 16), hex_digit (of_char c mod 16)])"

definition repr_str :: "string \<Rightarrow> string" where
  "repr_str s =
     (let quote = (if CHR 0x27 \<in> set s \<and> CHR 0x22 \<notin> set s then CHR 0x22 else CHR 0x27)
      in [quote] @ concat (map (repr_char quote) s) @ [quote])"

fun join_with :: "string \<Rightarrow> string list \<Rightarrow> string" where
  "join_with d [] = []"
| "join_with d [x] = x"
| "join_with d (x # y # ys) = x @ d @ join_with d (y # ys)"

definition repr_list :: "string list \<Rightarrow> string" where
  "repr_list xs = ''['' @ join_with '', '' (map repr_str xs) @ '']''"

subsection \<open>The library's file operations\<close>

definition ensure_dirs :: "filesystem \<Rightarrow> path list \<Rightarrow> filesystem" where
  "ensure_dirs fs ds = foldl (\<lambda>fs d. if path_exists fs d then fs else put fs d Dir) fs ds"

text \<open>
  \<^verbatim>\<open>os.makedirs(p)\<close>: the directories above \<open>p\<close> that are missing are made, then
  \<open>p\<close> itself, which must not exist.
\<close>

definition makedirs_fs :: "filesystem \<Rightarrow> path \<Rightarrow> os_failure + filesystem" where
  "makedirs_fs fs p =
     (case find (\<lambda>d. path_exists fs d \<and> \<not> isdir fs d) (parents p) of
        Some d \<Rightarrow> Inl (NotADirectory d)
      | None \<Rightarrow>
          if path_exists fs p then Inl (FileExists p)
          else Inr (put (ensure_dirs fs (parents p)) p Dir))"

definition makedirs :: "env \<Rightarrow> path \<Rightarrow> world \<Rightarrow> unit outcome" where
  "makedirs ev p w =
     (case makedirs_fs (files w) p of
        Inl f \<Rightarrow> os_raise ev f w
      | Inr fs \<Rightarrow> (w\<lparr>files := fs\<rparr>, Inr ()))"

text \<open>\<^verbatim>\<open>shutil.rmtree(p)\<close> removes a directory with all that lies below it.\<close>

definition rmtree :: "env \<Rightarrow> path \<Rightarrow> world \<Rightarrow> unit outcome" where
  "rmtree ev p w =
     (if isdir (files w) p then (w\<lparr>files := remove_tree (files w) p\<rparr>, Inr ())
      else if path_exists (files w) p then os_raise ev (NotADirectory p) w
      else os_raise ev (NoSuchFile p) w)"

text \<open>\<^verbatim>\<open>os.remove(p)\<close> removes a file.\<close>

definition remove :: "env \<Rightarrow> path \<Rightarrow> world \<Rightarrow> unit outcome" where
  "remove ev p w =
     (if isfile (files w) p then (w\<lparr>files := unlink (files w) p\<rparr>, Inr ())
      else if path_exists (files w) p then os_raise ev (IsADirectory p) w
      else os_raise ev (NoSuchFile p) w)"

text \<open>
  \<^verbatim>\<open>os.chmod(p, os.stat(p).st_mode | stat.S_IXUSR | stat.S_IXGRP | stat.S_IXOTH)\<close>
  sets the execute permission.
\<close>

definition chmod_x :: "env \<Rightarrow> path \<Rightarrow> world \<Rightarrow> unit outcome" where
  "chmod_x ev p w =
     (case map_of (files w) p of
        None \<Rightarrow> os_raise ev (NoSuchFile p) w
      | Some Dir \<Rightarrow> (w, Inr ())
      | Some (File x) \<Rightarrow> (w\<lparr>files := put (files w) p (File True)\<rparr>, Inr ()))"

text \<open>
  \<^verbatim>\<open>open(p, 'wb')\<close> makes an empty file, or empties the file that is there and keeps
  its permissions.
\<close>

definition open_wb :: "env \<Rightarrow> path \<Rightarrow> world \<Rightarrow> unit outcome" where
  "open_wb ev p w =
     (case map_of (files w) p of
        Some Dir \<Rightarrow> os_raise ev (IsADirectory p) w
      | Some (File x) \<Rightarrow> (w, Inr ())
      | None \<Rightarrow>
          if parent_ok (files w) p then (w\<lparr>files := put (files w) p (File False)\<rparr>, Inr ())
          else os_raise ev (NoSuchFile p) w)"

text \<open>
  \<^verbatim>\<open>os.access(p, os.X_OK)\<close> on a regular file: the execute permission, but on Windows
  every file that exists passes.
\<close>

definition access_x :: "env \<Rightarrow> filesystem \<Rightarrow> path \<Rightarrow> bool" where
  "access_x ev fs p =
     (case map_of fs p of
        None \<Rightarrow> False
      | Some Dir \<Rightarrow> True
      | Some (File x) \<Rightarrow> platform ev = ''win32'' \<or> x)"

text \<open>
  \<^verbatim>\<open>shutil.move(src, dst)\<close> of a regular file: into \<open>dst\<close> under its own name when
  \<open>dst\<close> is a directory, where nothing of that name may exist; onto \<open>dst\<close> otherwise,
  replacing a file that is there.
\<close>

definition move :: "env \<Rightarrow> path \<Rightarrow> path \<Rightarrow> world \<Rightarrow> unit outcome" where
  "move ev src dst w =
     (case map_of (files w) src of
        None \<Rightarrow> os_raise ev (NoSuchFile src) w
      | Some n \<Rightarrow>
          (let real_dst = (if isdir (files w) dst then Join dst (last_name src) else dst) in
           if isdir (files w) dst \<and> path_exists (files w) real_dst then
             (w, Inl (OtherException
                (''Destination path '' @ [CHR 0x27] @ path_str ev real_dst @ [CHR 0x27] @
                 '' already exists'')))
           else if \<not> parent_ok (files w) real_dst then os_raise ev (NoSuchFile real_dst) w
           else (w\<lparr>files := put (unlink (files w) src) real_dst n\<rparr>, Inr ())))"

text \<open>Writing the members of an archive below a directory.\<close>

definition add_member :: "path \<Rightarrow> filesystem \<Rightarrow> string list \<times> node \<Rightarrow> filesystem" where
  "add_member dest fs m =
     (let p = foldl Join dest (fst m) in put (ensure_dirs fs (parents p)) p (snd m))"

definition unpack_exn :: "archive_format \<Rightarrow> unpack_error \<Rightarrow> exn" where
  "unpack_exn fmt x =
     (case x of
        BadArchive msg \<Rightarrow> (case fmt of Zip \<Rightarrow> BadZipFile msg | TarXz \<Rightarrow> ReadError msg)
      | UnpackOther msg \<Rightarrow> OtherException msg)"

definition extractall :: "env \<Rightarrow> archive_format \<Rightarrow> path \<Rightarrow> path \<Rightarrow> world \<Rightarrow> unit outcome" where
  "extractall ev fmt archive_path dest w =
     (case unpack ev fmt archive_path of
        UnpackRaises x \<Rightarrow> (w, Inl (unpack_exn fmt x))
      | Members ms \<Rightarrow> (w\<lparr>files := foldl (add_member dest) (files w) ms\<rparr>, Inr ()))"

subsection \<open>\<^verbatim>\<open>find_executable\<close> (lines 19 to 34)\<close>

fun find_executable :: "env \<Rightarrow> filesystem \<Rightarrow> string \<Rightarrow> path list \<Rightarrow> path option" where
  "find_executable ev fs name [] = None"
| "find_executable ev fs name (path # path_list) =
     (let full_path = Join path name in
      if isfile fs full_path \<and> access_x ev fs full_path then Some full_path
      else
        (let full_path_exe = Join path (name @ ''.exe'') in
         if platform ev = ''win32'' \<and> isfile fs full_path_exe \<and> access_x ev fs full_path_exe
         then Some full_path_exe
         else find_executable ev fs name path_list))"

subsection \<open>\<^verbatim>\<open>_download_file\<close> (lines 144 to 163)\<close>

text \<open>
  Line 159: \<^verbatim>\<open>int(downloaded_size * 100 / total_size)\<close>. The division of two integers
  gives the double nearest to the quotient and raises \<^verbatim>\<open>OverflowError\<close> when there is
  none.
\<close>

definition percent :: "int \<Rightarrow> int \<Rightarrow> exn + int" where
  "percent downloaded_size total_size =
     (let q = of_int (downloaded_size * 100) / of_int total_size in
      case round_double \<bar>q\<bar> of
        None \<Rightarrow> Inl (OtherException ''integer division result too large for a float'')
      | Some v \<Rightarrow> Inr (if 0 \<le> q then \<lfloor>v\<rfloor> else - \<lfloor>v\<rfloor>))"

text \<open>The loop of lines 154 to 160 over the chunks, with the size downloaded so far.\<close>

fun write_chunks :: "string \<Rightarrow> int \<Rightarrow> int \<Rightarrow> nat list \<Rightarrow> world \<Rightarrow> unit outcome" where
  "write_chunks tool_name total_size downloaded_size [] = skip"
| "write_chunks tool_name total_size downloaded_size (chunk # chunks) =
     (if chunk = 0 then write_chunks tool_name total_size downloaded_size chunks
      else
        (let downloaded_size = downloaded_size + int chunk in
         if total_size > 0 then
           (case percent downloaded_size total_size of
              Inl e \<Rightarrow> raise e
            | Inr progress \<Rightarrow>
                and_then
                  (emit (SetupProgressBar progress
                     (''Downloading '' @ tool_name @ '': '' @ str_int progress @ ''%'')))
                  (\<lambda>u. write_chunks tool_name total_size downloaded_size chunks))
         else write_chunks tool_name total_size downloaded_size chunks))"

text \<open>Line 163: the message of the exception raised in place of the library's.\<close>

definition failed_to_download :: "string \<Rightarrow> string \<Rightarrow> string \<Rightarrow> string" where
  "failed_to_download tool_name from_url msg =
     ''Failed to download '' @ tool_name @ '' from '' @ from_url @ '': '' @ msg"

definition download_file :: "env \<Rightarrow> string \<Rightarrow> path \<Rightarrow> string \<Rightarrow> world \<Rightarrow> unit outcome" where
  "download_file ev from_url destination tool_name =
     and_then (\<lambda>w. (w\<lparr>requests := requests w @ [from_url]\<rparr>, Inr ())) (\<lambda>u.
       case fetch ev from_url of
         FetchFailed msg \<Rightarrow> raise (RequestException (failed_to_download tool_name from_url msg))
       | Fetched total_size chunks broken \<Rightarrow>
           and_then (open_wb ev destination) (\<lambda>u.
           and_then (write_chunks tool_name total_size 0 chunks) (\<lambda>u.
             case broken of
               Some msg \<Rightarrow> raise (RequestException (failed_to_download tool_name from_url msg))
             | None \<Rightarrow>
                 emit (SetupProgressBar 100 (''Downloading '' @ tool_name @ '': 100%'')))))"

subsection \<open>\<^verbatim>\<open>_extract_to_temp_dir\<close> (lines 165 to 186)\<close>

text \<open>
  The test \<^verbatim>\<open>archive_path.endswith('.zip')\<close> is made on the last name of the path,
  which the joined path ends with.
\<close>

definition extraction_root :: "filesystem \<Rightarrow> path \<Rightarrow> path" where
  "extraction_root fs temp_extract_path =
     (let extracted_contents = listdir fs temp_extract_path in
      if length extracted_contents = 1 \<and> isdir fs (Join temp_extract_path (hd extracted_contents))
      then Join temp_extract_path (hd extracted_contents)
      else temp_extract_path)"

definition archive_format_of :: "path \<Rightarrow> archive_format option" where
  "archive_format_of archive_path =
     (if endswith (last_name archive_path) ''.zip'' then Some Zip
      else if endswith (last_name archive_path) ''.tar.xz'' then Some TarXz
      else None)"

definition extract_to_temp_dir :: "env \<Rightarrow> path \<Rightarrow> path \<Rightarrow> world \<Rightarrow> path outcome" where
  "extract_to_temp_dir ev archive_path temp_extract_path =
     and_then
       (\<lambda>w. if path_exists (files w) temp_extract_path then rmtree ev temp_extract_path w
            else skip w) (\<lambda>u.
     and_then (makedirs ev temp_extract_path) (\<lambda>u.
     and_then
       (case archive_format_of archive_path of
          Some fmt \<Rightarrow> extractall ev fmt archive_path temp_extract_path
        | None \<Rightarrow> raise (OtherException
               ''Unsupported archive format. Only .zip and .tar.xz are supported.'')) (\<lambda>u w.
     (w, Inr (extraction_root (files w) temp_extract_path)))))"

subsection \<open>\<^verbatim>\<open>SetupWorker.run\<close> (lines 49 to 142)\<close>

text \<open>The choices made on \<^verbatim>\<open>sys.platform\<close>, lines 58 to 63 and 82 to 92.\<close>

definition yt_dlp_url :: "string \<Rightarrow> string" where
  "yt_dlp_url plat =
     (if plat = ''win32'' then ''https://github.com/yt-dlp/yt-dlp/releases/latest/download/yt-dlp.exe''
      else ''https://github.com/yt-dlp/yt-dlp/releases/latest/download/yt-dlp'')"

definition yt_dlp_filename :: "string \<Rightarrow> string" where
  "yt_dlp_filename plat = (if plat = ''win32'' then ''yt-dlp.exe'' else ''yt-dlp'')"

definition ffmpeg_archive_url :: "string \<Rightarrow> string" where
  "ffmpeg_archive_url plat =
     (if plat = ''win32'' then ''https://www.gyan.dev/ffmpeg/builds/ffmpeg-release-full.zip''
      else if plat = ''darwin'' then ''https://evermeet.cx/ffmpeg/ffmpeg-latest.zip''
      else ''https://johnvansickle.com/ffmpeg/releases/ffmpeg-release-amd64-static.tar.xz'')"

definition ffmpeg_archive_filename :: "string \<Rightarrow> string" where
  "ffmpeg_archive_filename plat =
     (if plat = ''win32'' then ''ffmpeg-release-full.zip''
      else if plat = ''darwin'' then ''ffmpeg-latest.zip''
      else ''ffmpeg-release-amd64-static.tar.xz'')"

text \<open>Lines 67 to 74.\<close>

definition setup_yt_dlp :: "env \<Rightarrow> path \<Rightarrow> world \<Rightarrow> unit outcome" where
  "setup_yt_dlp ev tools_dir =
     (let yt_dlp_filename = yt_dlp_filename (platform ev);
          yt_dlp_path = Join tools_dir yt_dlp_filename
      in (\<lambda>w.
        if \<not> path_exists (files w) yt_dlp_path then
          and_then (emit (UpdateStatus (''Downloading '' @ yt_dlp_filename @ ''...''))) (\<lambda>u.
          and_then (download_file ev (yt_dlp_url (platform ev)) yt_dlp_path ''yt-dlp'') (\<lambda>u.
          and_then (if platform ev \<noteq> ''win32'' then chmod_x ev yt_dlp_path else skip) (\<lambda>u.
          emit (UpdateStatus (yt_dlp_filename @ '' downloaded.''))))) w
        else emit (UpdateStatus (yt_dlp_filename @ '' already exists.'')) w))"

text \<open>Lines 105 to 114: looking for the two executables below the extracted root.\<close>

definition locate_executables :: "env \<Rightarrow> path \<Rightarrow> world \<Rightarrow> (path \<times> path) outcome" where
  "locate_executables ev extracted_root_dir w =
     (let search_paths_for_exec = [extracted_root_dir, Join extracted_root_dir ''bin''] in
      case (find_executable ev (files w) ''ffmpeg'' search_paths_for_exec,
            find_executable ev (files w) ''ffprobe'' search_paths_for_exec) of
        (Some extracted_ffmpeg_path, Some extracted_ffprobe_path) \<Rightarrow>
          (w, Inr (extracted_ffmpeg_path, extracted_ffprobe_path))
      | _ \<Rightarrow>
          raise (OtherException
            (''FFmpeg or FFprobe executables not found after extraction in '' @
             repr_list (map (path_str ev) search_paths_for_exec) @
             ''. Please check the archive content.'')) w)"

text \<open>Lines 100 to 131: from the downloaded archive to the installed pair.\<close>

definition unpack_and_install :: "env \<Rightarrow> path \<Rightarrow> world \<Rightarrow> unit outcome" where
  "unpack_and_install ev tools_dir =
     (let ffmpeg_path_in_tools = Join tools_dir ''ffmpeg'';
          ffprobe_path_in_tools = Join tools_dir ''ffprobe'';
          ffmpeg_archive_filename = ffmpeg_archive_filename (platform ev);
          temp_archive_path = Join tools_dir ffmpeg_archive_filename;
          temp_extract_dir = Join tools_dir ''ffmpeg_temp_extract''
      in
        and_then (emit (UpdateStatus (''Extracting '' @ ffmpeg_archive_filename @ ''...''))) (\<lambda>u.
        and_then (extract_to_temp_dir ev temp_archive_path temp_extract_dir) (\<lambda>extracted_root_dir.
        and_then (locate_executables ev extracted_root_dir) (\<lambda>found.
        and_then (move ev (fst found) ffmpeg_path_in_tools) (\<lambda>u.
        and_then (move ev (snd found) ffprobe_path_in_tools) (\<lambda>u.
        and_then
          (if platform ev \<noteq> ''win32''
           then and_then (chmod_x ev ffmpeg_path_in_tools) (\<lambda>u. chmod_x ev ffprobe_path_in_tools)
           else skip) (\<lambda>u.
        and_then (emit (UpdateStatus ''ffmpeg and ffprobe extracted and moved.'')) (\<lambda>u.
        and_then
          (\<lambda>w. if path_exists (files w) temp_extract_dir then
                 and_then (rmtree ev temp_extract_dir) (\<lambda>u.
                   emit (UpdateStatus (''Cleaned up temporary extraction directory: '' @
                                       last_name temp_extract_dir @ ''.''))) w
               else skip w) (\<lambda>u.
        and_then (remove ev temp_archive_path) (\<lambda>u.
        emit (UpdateStatus (''Cleaned up '' @ ffmpeg_archive_filename @ ''.''))))))))))))"

text \<open>Lines 98 to 131: fetching the archive, then the above.\<close>

definition install_ffmpeg :: "env \<Rightarrow> path \<Rightarrow> world \<Rightarrow> unit outcome" where
  "install_ffmpeg ev tools_dir =
     (let ffmpeg_archive_filename = ffmpeg_archive_filename (platform ev);
          temp_archive_path = Join tools_dir ffmpeg_archive_filename
      in
        and_then (emit (UpdateStatus (''Downloading '' @ ffmpeg_archive_filename @ ''...''))) (\<lambda>u.
        and_then (download_file ev (ffmpeg_archive_url (platform ev)) temp_archive_path ''FFmpeg'') (\<lambda>u.
        unpack_and_install ev tools_dir)))"

text \<open>Lines 51 to 135, the body of the \<^verbatim>\<open>try\<close>.\<close>

definition setup_body :: "env \<Rightarrow> path \<Rightarrow> world \<Rightarrow> unit outcome" where
  "setup_body ev tools_dir =
     and_then
       (\<lambda>w. if \<not> path_exists (files w) tools_dir then
              and_then (makedirs ev tools_dir) (\<lambda>u.
                emit (UpdateStatus (''Created tools directory: '' @ path_str ev tools_dir))) w
            else skip w) (\<lambda>u.
     and_then (setup_yt_dlp ev tools_dir) (\<lambda>u.
     and_then
       (\<lambda>w. if \<not> path_exists (files w) (Join tools_dir ''ffmpeg'') \<or>
               \<not> path_exists (files w) (Join tools_dir ''ffprobe'')
            then install_ffmpeg ev tools_dir w
            else emit (UpdateStatus ''ffmpeg and ffprobe already exist.'') w) (\<lambda>u.
     emit (SetupFinished True ''Tool setup completed successfully!''))))"

text \<open>Lines 137 to 142, the handlers.\<close>

definition failure_message :: "exn \<Rightarrow> string" where
  "failure_message e =
     (case e of
        RequestException msg \<Rightarrow> ''Network error during tool download: '' @ msg
      | BadZipFile msg \<Rightarrow>
          ''Archive extraction error: '' @ msg @ ''. The downloaded file might be corrupted.''
      | ReadError msg \<Rightarrow>
          ''Archive extraction error: '' @ msg @ ''. The downloaded file might be corrupted.''
      | OtherException msg \<Rightarrow> ''An error occurred during tool setup: '' @ msg)"

definition setup_run :: "env \<Rightarrow> path \<Rightarrow> world \<Rightarrow> world" where
  "setup_run ev tools_dir w =
     (case setup_body ev tools_dir w of
        (w', Inr u) \<Rightarrow> w'
      | (w', Inl e) \<Rightarrow> fst (emit (SetupFinished False (failure_message e)) w'))"

subsection \<open>\<^verbatim>\<open>YouTubeDownloaderApp.start_download\<close> (lines 425 to 458)\<close>

text \<open>
  \<^verbatim>\<open>str.strip()\<close> and \<^verbatim>\<open>str.lower()\<close> for code points below 256, and
  \<^verbatim>\<open>p in s\<close> for strings.
\<close>

definition strip :: "string \<Rightarrow> string" where
  "strip s = rev (dropWhile is_space (rev (dropWhile is_space s)))"

definition str_lower :: "string \<Rightarrow> string" where
  "str_lower s =
     map (\<lambda>c. let k = (of_char c :: nat) in
               if 65 \<le> k \<and> k \<le> 90 \<or> 192 \<le> k \<and> k \<le> 222 \<and> k \<noteq> 215 then char_of (k + 32) else c) s"

fun contains :: "string \<Rightarrow> string \<Rightarrow> bool" where
  "contains [] p = (p = [])"
| "contains (c # cs) p = (startswith (c # cs) p \<or> contains cs p)"

text \<open>
  The slot takes the text of the URL field and of the format box, and the two
  executables found at setup. It raises when \<^verbatim>\<open>os.makedirs\<close> does; it returns
  without a job when the URL is empty; otherwise it hands the job to a new worker. The
  destination is the relative path \<^verbatim>\<open>downloads\<close>.
\<close>

definition start_download ::
  "string \<Rightarrow> string \<Rightarrow> string \<Rightarrow> string \<Rightarrow> ui_state \<times> filesystem \<Rightarrow>
   os_failure + (ui_state \<times> filesystem) \<times> download_job option" where
  "start_download url_text selected_format_text yt_dlp ffmpeg st =
     (let ui = fst st; fs = snd st; url = strip url_text in
      if url = [] then
        Inr ((ui\<lparr>message_boxes := message_boxes ui @
                 [(''warning'', ''Empty Input'', ''Please enter a YouTube video URL.'')]\<rparr>, fs), None)
      else
        (let format_choice = (if contains (str_lower selected_format_text) ''mp3'' then ''mp3'' else ''best'');
             output_folder = ''downloads'';
             made = (if \<not> path_exists fs (Base output_folder)
                     then makedirs_fs fs (Base output_folder) else Inr fs)
         in case made of
              Inl f \<Rightarrow> Inl f
            | Inr fs' \<Rightarrow>
                (let ui1 = ui\<lparr>output_log := [''Starting video download process...''],
                               download_button_enabled := False,
                               url_input_enabled := False,
                               format_combo_enabled := False,
                               progress_bar_format := ''Downloading video...''\<rparr>;
                     ui2 = setValue 0 ui1
                 in Inr ((ui2, fs'),
                         Some \<lparr>url = url, output_path = output_folder,
                               format_choice = format_choice,
                               yt_dlp_exec = yt_dlp, ffmpeg_exec = ffmpeg\<rparr>))))"

subsection \<open>Statements about steps\<close>




subsection \<open>Sample environments\<close>

text \<open>
  A Linux machine whose archive holds one top directory; a macOS machine whose archive is
  flat and whose unpacked file has no execute permission; a machine without network; and
  one whose archive cannot be read. The worlds are a tools directory that is empty, one
  with leavings of an earlier run, one with the archive just downloaded, and one with
  everything installed.
\<close>

definition tools :: path where
  "tools = Base ''/app/tools''"

definition linux_env :: env where
  "linux_env = \<lparr>platform = ''linux'',
     fetch = (\<lambda>u. Fetched 300 [100, 0, 100, 100] None),
     unpack = (\<lambda>f p. Members [([''ffmpeg-7.0-amd64-static'', ''ffmpeg''], File True),
                               ([''ffmpeg-7.0-amd64-static'', ''ffprobe''], File True),
                               ([''ffmpeg-7.0-amd64-static'', ''readme.txt''], File False)]),
     strerror = (\<lambda>f. ''os error'')\<rparr>"

definition flat_env :: env where
  "flat_env = linux_env\<lparr>platform := ''darwin'', unpack := (\<lambda>f p. Members [([''ffmpeg''], File False)])\<rparr>"



definition ready_ui :: ui_state where
  "ready_ui =
     \<lparr>download_button_enabled = True, url_input_enabled = True, format_combo_enabled = True,
      output_log = [], status_message = ''Application ready for download.'',
      progress_bar_value = 100, progress_bar_format = ''Tools ready. Enter URL.'',
      message_boxes = []\<rparr>"

definition fresh_world :: world where
  "fresh_world = \<lparr>files = [(tools, Dir)], signals = [], requests = []\<rparr>"

definition stale_world :: world where
  "stale_world =
     \<lparr>files = [(Join (Join tools ''ffmpeg_temp_extract'') ''old'', File True),
               (Join tools ''ffmpeg_temp_extract'', Dir),
               (Join tools ''ffmpeg-latest.zip'', File False),
               (Join tools ''yt-dlp'', File True),
               (tools, Dir)],
      signals = [], requests = []\<rparr>"


definition installed_world :: world where
  "installed_world =
     \<lparr>files = [(Join tools ''ffprobe'', File True),
               (Join tools ''ffmpeg'', File True),
               (Join tools ''yt-dlp'', File True),
               (tools, Dir)],
      signals = [], requests = []\<rparr>"

section \<open>Properties\<close>

text \<open>
  C2. Whatever the job, the argument list is the fixed head (executable, segmented-download
  helper, transcoder location, output template), then the format arguments, then the URL.
  For the format choice \<^verbatim>\<open>mp3\<close> the format arguments are the audio-extraction flag
  \<^verbatim>\<open>-x\<close> with target codec \<^verbatim>\<open>mp3\<close> and audio quality \<^verbatim>\<open>0\<close>; for
  \<^verbatim>\<open>best\<close> they are \<^verbatim>\<open>-f\<close> and the fixed fallback selector; for any other
  string they are \<^verbatim>\<open>-f\<close> and that string itself.
\<close>

theorem build_command_format:
  "(format_choice job = ''mp3'' \<longrightarrow>
      build_command join job = command_head join job @
        [''-x'', ''--audio-format'', ''mp3'', ''--audio-quality'', ''0'', url job]) \<and>
   (format_choice job = ''best'' \<longrightarrow>
      build_command join job = command_head join job @
        [''-f'', ''bestvideo[ext=mp4]+bestaudio[ext=m4a]/best[ext=mp4]/best'', url job]) \<and>
   (format_choice job \<noteq> ''mp3'' \<and> format_choice job \<noteq> ''best'' \<longrightarrow>
      build_command join job = command_head join job @ [''-f'', format_choice job, url job])"
  by (simp add: build_command_def format_args_def)

theorem build_command_format_witness:
  "build_command posix_join
     \<lparr>url = ''u'', output_path = ''downloads'', format_choice = ''mp3'',
      yt_dlp_exec = ''yt-dlp'', ffmpeg_exec = ''ffmpeg''\<rparr>
   = [''yt-dlp'', ''--external-downloader'', ''aria2c'',
      ''--external-downloader-args'', ''-x 16 -s 16 -k 1M'',
      ''--ffmpeg-location'', ''ffmpeg'', ''-o'', ''downloads/%(title)s.%(ext)s'',
      ''-x'', ''--audio-format'', ''mp3'', ''--audio-quality'', ''0'', ''u''] \<and>
   build_command posix_join
     \<lparr>url = ''u'', output_path = ''downloads'', format_choice = ''best'',
      yt_dlp_exec = ''yt-dlp'', ffmpeg_exec = ''ffmpeg''\<rparr>
   = [''yt-dlp'', ''--external-downloader'', ''aria2c'',
      ''--external-downloader-args'', ''-x 16 -s 16 -k 1M'',
      ''--ffmpeg-location'', ''ffmpeg'', ''-o'', ''downloads/%(title)s.%(ext)s'',
      ''-f'', ''bestvideo[ext=mp4]+bestaudio[ext=m4a]/best[ext=mp4]/best'', ''u''] \<and>
   build_command posix_join
     \<lparr>url = ''u'', output_path = ''downloads'', format_choice = ''22'',
      yt_dlp_exec = ''yt-dlp'', ffmpeg_exec = ''ffmpeg''\<rparr>
   = [''yt-dlp'', ''--external-downloader'', ''aria2c'',
      ''--external-downloader-args'', ''-x 16 -s 16 -k 1M'',
      ''--ffmpeg-location'', ''ffmpeg'', ''-o'', ''downloads/%(title)s.%(ext)s'',
      ''-f'', ''22'', ''u'']"
  using
    build_command_format [of "\<lparr>url = ''u'', output_path = ''downloads'', format_choice = ''mp3'',
      yt_dlp_exec = ''yt-dlp'', ffmpeg_exec = ''ffmpeg''\<rparr>" posix_join]
    build_command_format [of "\<lparr>url = ''u'', output_path = ''downloads'', format_choice = ''best'',
      yt_dlp_exec = ''yt-dlp'', ffmpeg_exec = ''ffmpeg''\<rparr>" posix_join]
    build_command_format [of "\<lparr>url = ''u'', output_path = ''downloads'', format_choice = ''22'',
      yt_dlp_exec = ''yt-dlp'', ffmpeg_exec = ''ffmpeg''\<rparr>" posix_join]
  by (simp add: command_head_def posix_join_def endswith_def)

subsection \<open>Tokens of \<^verbatim>\<open>split\<close>\<close>

lemma split_from_no_space:
  "\<forall>c\<in>set cur. \<not> is_space c \<Longrightarrow> p \<in> set (split_from cur s) \<Longrightarrow>
   p \<noteq> [] \<and> (\<forall>c\<in>set p. \<not> is_space c)"
proof (induction cur s rule: split_from.induct)
  case (1 cur)
  then show ?case by (simp split: if_splits)
next
  case (2 cur c cs)
  show ?case
  proof (cases "is_space c")
    case True
    from "2.prems"(2) True have "p = cur \<and> cur \<noteq> [] \<or> p \<in> set (split_from [] cs)"
      by (simp split: if_splits)
    then show ?thesis
    proof
      assume "p = cur \<and> cur \<noteq> []"
      with "2.prems"(1) show ?thesis by simp
    next
      assume "p \<in> set (split_from [] cs)"
      with "2.IH"(1) [OF True] show ?thesis by simp
    qed
  next
    case False
    from "2.prems"(2) False have "p \<in> set (split_from (cur @ [c]) cs)" by simp
    moreover from "2.prems"(1) False have "\<forall>x\<in>set (cur @ [c]). \<not> is_space x" by simp
    ultimately show ?thesis using "2.IH"(2) [OF False] by blast
  qed
qed

lemma split_no_space: "p \<in> set (split s) \<Longrightarrow> p \<noteq> [] \<and> (\<forall>c\<in>set p. \<not> is_space c)"
  unfolding split_def using split_from_no_space [of "[]" p s] by simp

lemma split_from_subset: "p \<in> set (split_from cur s) \<Longrightarrow> set p \<subseteq> set cur \<union> set s"
  by (induction cur s rule: split_from.induct) (auto split: if_splits)

lemma split_subset: "p \<in> set (split s) \<Longrightarrow> set p \<subseteq> set s"
  unfolding split_def using split_from_subset [of p "[]" s] by simp

lemma endswith_last: "endswith p [c] \<Longrightarrow> c \<in> set p"
proof -
  assume a: "endswith p [c]"
  show ?thesis
  proof (cases "rev p")
    case Nil
    with a show ?thesis by (simp add: endswith_def)
  next
    case (Cons x xs)
    with a have "x = c" by (simp add: endswith_def)
    with Cons have "c \<in> set (rev p)" by simp
    then show ?thesis by simp
  qed
qed

text \<open>
  The loop over the parts computes what the specification describes: the value of the
  first part that ends in a percent sign.
\<close>

lemma scan_parts_find:
  "scan_parts parts =
     (case find (\<lambda>p. endswith p ''%'') parts of
        None \<Rightarrow> Inr None
      | Some p \<Rightarrow> (case progress_value p of Inl e \<Rightarrow> Inl e | Inr v \<Rightarrow> Inr (Some v)))"
  by (induction parts) auto

lemma first_percent_token_in_line:
  assumes "first_percent_token line = Some part"
  shows "CHR ''%'' \<in> set line"
proof -
  from assms have "part \<in> set (split line)" and "endswith part ''%''"
    by (auto simp: first_percent_token_def find_Some_iff)
  then show ?thesis using split_subset [of part line] endswith_last [of part "CHR ''%''"] by blast
qed

subsection \<open>What one output line does\<close>

lemma process_line_no_percent:
  "CHR ''%'' \<notin> set line \<Longrightarrow> process_line line = ([UpdateProgress line], None)"
  by (simp add: process_line_def)

lemma process_line_no_token:
  "first_percent_token line = None \<Longrightarrow> process_line line = ([UpdateProgress line], None)"
  by (simp add: process_line_def scan_parts_find first_percent_token_def)

lemma process_line_value_error:
  "first_percent_token line = Some part \<Longrightarrow> progress_value part = Inl ValueError \<Longrightarrow>
   process_line line = ([UpdateProgress line], None)"
  by (simp add: process_line_def scan_parts_find first_percent_token_def)

lemma process_line_value:
  assumes "first_percent_token line = Some part" and "progress_value part = Inr v"
  shows "process_line line =
     ([UpdateProgress line, UpdateProgressBar v (''Downloading: '' @ str_int v @ ''%'')], None)"
  using assms first_percent_token_in_line [OF assms(1)]
  by (simp add: process_line_def scan_parts_find first_percent_token_def)

lemma process_line_overflow:
  assumes "first_percent_token line = Some part" and "progress_value part = Inl OverflowError"
  shows "process_line line =
     ([UpdateProgress line], Some ''cannot convert float infinity to integer'')"
  using assms first_percent_token_in_line [OF assms(1)]
  by (simp add: process_line_def scan_parts_find first_percent_token_def)

subsection \<open>Rounding to a double: overflow\<close>

lemma pow2_powi: "pow2 k = 2 powi k"
  unfolding pow2_def power_int_def by (simp add: power_one_over [symmetric] inverse_eq_divide)

lemma pow2_pos: "0 < pow2 k"
  by (simp add: pow2_def)

lemma pow2_add: "pow2 (j + k) = pow2 j * pow2 k"
  by (simp add: pow2_powi power_int_add)

lemma pow2_mono: "j \<le> k \<Longrightarrow> pow2 j \<le> pow2 k"
  by (simp add: pow2_powi power_int_increasing)

lemma pow2_nat: "pow2 (int n) = 2 ^ n"
  by (simp add: pow2_def)

lemma bitlen_pow2_bounds:
  assumes "0 < a"
  shows "pow2 (bitlen a - 1) \<le> of_int a" and "of_int a < pow2 (bitlen a)"
proof -
  have l: "1 \<le> bitlen a" using assms by (simp add: bitlen_alt_def)
  from bitlen_bounds [OF assms]
  have lo: "2 ^ nat (bitlen a - 1) \<le> a" and hi: "a < 2 ^ nat (bitlen a)" by simp_all
  have "(of_int (2 ^ nat (bitlen a - 1)) :: rat) \<le> of_int a"
    using lo by (simp only: of_int_le_iff)
  then show "pow2 (bitlen a - 1) \<le> of_int a" using l by (simp add: pow2_def)
  have "(of_int a :: rat) < of_int (2 ^ nat (bitlen a))"
    using hi by (simp only: of_int_less_iff)
  then show "of_int a < pow2 (bitlen a)" using l by (simp add: pow2_def)
qed

lemma floor_log2_bounds:
  assumes "0 < q"
  shows "pow2 (floor_log2 q) \<le> q" and "q < pow2 (floor_log2 q + 1)"
proof -
  obtain a b where ab: "quotient_of q = (a, b)" by (cases "quotient_of q")
  have b: "0 < b" using ab by (rule quotient_of_denom_pos)
  have q: "q = of_int a / of_int b" using ab by (rule quotient_of_div)
  have a: "0 < a" using assms b q by (simp add: zero_less_divide_iff)
  define k where "k = bitlen a - bitlen b"
  have fl: "floor_log2 q = (if pow2 k \<le> q then k else k - 1)"
    by (simp add: floor_log2_def ab k_def Let_def)
  note A = bitlen_pow2_bounds [OF a] and B = bitlen_pow2_bounds [OF b]
  have bq: "(0::rat) < of_int b" using b by simp
  have lower: "pow2 (k - 1) \<le> q"
  proof -
    have "pow2 (k - 1) * of_int b \<le> pow2 (k - 1) * pow2 (bitlen b)"
      using B(2) pow2_pos [of "k - 1"] by simp
    also have "\<dots> = pow2 (bitlen a - 1)"
      by (simp add: k_def flip: pow2_add)
    also have "\<dots> \<le> of_int a" by (rule A(1))
    finally show ?thesis using bq by (simp add: q pos_le_divide_eq)
  qed
  have upper: "q < pow2 (k + 1)"
  proof -
    have "of_int a < pow2 (bitlen a)" by (rule A(2))
    also have "\<dots> = pow2 (k + 1) * pow2 (bitlen b - 1)"
      by (simp add: k_def flip: pow2_add)
    also have "\<dots> \<le> pow2 (k + 1) * of_int b"
      using B(1) pow2_pos [of "k + 1"] by simp
    finally show ?thesis using bq by (simp add: q pos_divide_less_eq)
  qed
  show "pow2 (floor_log2 q) \<le> q" using lower by (simp add: fl)
  show "q < pow2 (floor_log2 q + 1)" using upper by (simp add: fl not_le)
qed

lemma round_half_even_ge: "\<lfloor>q\<rfloor> \<le> round_half_even q"
  by (simp add: round_half_even_def Let_def)

lemma round_double_overflow:
  assumes "2 ^ 1024 \<le> q"
  shows "round_double q = None"
proof -
  have qpos: "0 < q" using assms by (rule less_le_trans [rotated]) simp
  define k where "k = floor_log2 q"
  have lo: "pow2 k \<le> q" and hi: "q < pow2 (k + 1)"
    using floor_log2_bounds [OF qpos] by (simp_all add: k_def)
  have k: "1024 \<le> k"
  proof (rule ccontr)
    assume "\<not> 1024 \<le> k"
    then have "k + 1 \<le> 1024" by simp
    then have "pow2 (k + 1) \<le> pow2 1024" by (rule pow2_mono)
    also have "pow2 1024 = 2 ^ 1024" by (simp add: pow2_def)
    finally show False using hi assms by simp
  qed
  define e where "e = max (k - 52) (- 1074)"
  have e: "e = k - 52" using k by (simp add: e_def)
  define m where "m = round_half_even (q / pow2 e)"
  have "pow2 52 = pow2 k / pow2 e"
    using pow2_add [of 52 e] pow2_pos [of e] by (simp add: e)
  also have "\<dots> \<le> q / pow2 e"
    using lo pow2_pos [of e] by (simp add: divide_right_mono)
  finally have "(2::rat) ^ 52 \<le> q / pow2 e" by (simp add: pow2_def)
  then have "(of_int (2 ^ 52) :: rat) \<le> q / pow2 e" by simp
  then have "2 ^ 52 \<le> \<lfloor>q / pow2 e\<rfloor>" by (simp only: le_floor_iff)
  then have "2 ^ 52 \<le> m" unfolding m_def by (rule order_trans [OF _ round_half_even_ge])
  then have "(of_int (2 ^ 52) :: rat) \<le> of_int m" by (simp only: of_int_le_iff)
  then have "pow2 52 \<le> of_int m" by (simp add: pow2_def)
  then have "pow2 52 * pow2 e \<le> of_int m * pow2 e"
    using pow2_pos [of e] by simp
  moreover have "pow2 52 * pow2 e = pow2 k" using pow2_add [of 52 e] by (simp add: e)
  moreover have "pow2 1024 \<le> pow2 k" using k by (rule pow2_mono)
  moreover have "pow2 1024 = 2 ^ 1024" by (simp add: pow2_def)
  ultimately have "2 ^ 1024 \<le> of_int m * pow2 e" by simp
  then show ?thesis
    using qpos by (simp add: round_double_def Let_def k_def [symmetric] e_def [symmetric] m_def [symmetric])
qed

subsection \<open>Worked lines\<close>

lemma floatnumber_overflow_example: "floatnumber ''1.0e309'' = Some (10 * pow10 308)"
  by (simp add: floatnumber_def is_exp_mark_def number_def exponent_def split_sign_def
      is_digit_def digit_val_def decimal_def)

lemma progress_value_overflow_example: "progress_value ''1.0e309%'' = Inl OverflowError"
proof -
  have "(2::rat) ^ 1024 \<le> 10 * pow10 308" by (simp add: pow10_def)
  then have "round_double (10 * pow10 308) = None" by (rule round_double_overflow)
  then have "double_of False (10 * pow10 308) = PosInf" by (simp add: double_of_def)
  moreover have "replace_percent ''1.0e309%'' = ''1.0e309''" by (simp add: replace_percent_def)
  moreover have "float_of_token ''1.0e309'' = Inr (double_of False (10 * pow10 308))"
    using floatnumber_overflow_example by (simp add: float_of_token_def split_sign_def lower_def)
  ultimately show ?thesis by (simp add: progress_value_def int_of_float_def)
qed

lemma process_line_overflow_example:
  "process_line ''1.0e309%'' =
     ([UpdateProgress ''1.0e309%''], Some ''cannot convert float infinity to integer'')"
proof -
  have "first_percent_token ''1.0e309%'' = Some ''1.0e309%''"
    by (simp add: first_percent_token_def split_def is_space_def endswith_def)
  then show ?thesis using progress_value_overflow_example by (rule process_line_overflow)
qed

lemma process_line_spec_example:
  "process_line ''  12.5% of 10MiB'' =
     ([UpdateProgress ''  12.5% of 10MiB'', UpdateProgressBar 12 ''Downloading: 12%''], None)"
proof -
  have "first_percent_token ''  12.5% of 10MiB'' = Some ''12.5%''"
    by (simp add: first_percent_token_def split_def is_space_def endswith_def)
  moreover have "progress_value ''12.5%'' = Inr 12" by code_simp
  moreover have "str_int 12 = ''12''" by code_simp
  ultimately show ?thesis using process_line_value [of "''  12.5% of 10MiB''" "''12.5%''" 12] by simp
qed

subsection \<open>Completion\<close>

lemma finished_append: "finished (xs @ ys) = finished xs @ finished ys"
  by (simp add: finished_def)

lemma finished_process_line: "finished (fst (process_line line)) = []"
  by (simp add: process_line_def finished_def split: sum.splits option.splits conv_error.splits)

lemma finished_stream_output: "finished (fst (stream_output lines)) = []"
proof (induction lines)
  case Nil
  show ?case by (simp add: finished_def)
next
  case (Cons line rest)
  obtain evs r where p: "process_line line = (evs, r)" by (cases "process_line line")
  obtain evs' r' where s: "stream_output rest = (evs', r')" by (cases "stream_output rest")
  from finished_process_line [of line] p have "finished evs = []" by simp
  moreover from Cons s have "finished evs' = []" by simp
  ultimately show ?case using p s by (cases r) (simp_all add: finished_append)
qed

lemma run_completes:
  assumes "popen (build_command join job) = Process lines returncode"
    and "stream_output lines = (evs, None)"
  shows "finished (run join popen job) =
     [if returncode = 0 then (True, ''Download completed successfully!'')
      else (False, ''Download failed with error code: '' @ str_int returncode)]"
proof -
  from finished_stream_output [of lines] assms(2) have "finished evs = []" by simp
  then show ?thesis using assms by (simp add: run_def finished_append) (simp add: finished_def)
qed

lemma run_not_found:
  assumes "popen (build_command join job) = FileNotFound"
  shows "finished (run join popen job) =
     [(False, ''Error: yt-dlp or ffmpeg executable not found. Ensure paths are correct and executables exist.'')]"
  using assms by (simp add: run_def finished_def)

lemma success_reaches_100: "progress_bar_value (on_download_finished True message ui) = 100"
  by (simp add: on_download_finished_def setValue_def Let_def)

lemma failure_resets_to_0: "progress_bar_value (on_download_finished False message ui) = 0"
  by (simp add: on_download_finished_def setValue_def Let_def)

lemma successful_run_reaches_100:
  assumes "popen (build_command join job) = Process lines 0"
    and "stream_output lines = (evs, None)"
  shows "progress_bar_value (foldl deliver ui (run join popen job)) = 100"
proof -
  from assms have "run join popen job =
      ([UpdateProgress (''Starting download from: '' @ url job @ [CHR 0x0A]),
        UpdateProgress (''Saving to: '' @ output_path job @ [CHR 0x0A]),
        UpdateProgressBar 0 ''Downloading...''] @ evs) @
      [DownloadFinished True ''Download completed successfully!'']"
    by (simp add: run_def)
  then show ?thesis by (simp only: foldl_append foldl.simps deliver.simps success_reaches_100)
qed

text \<open>
  C1. Every line is forwarded; a line with no percent sign, with no token ending in one,
  or whose first such token raises \<^verbatim>\<open>ValueError\<close> emits nothing more, and a token that
  converts emits the truncated value (the lemmas on \<open>process_line\<close> above, among them
  \<open>  12.5% of 10MiB\<close> with value 12). That a token without a value never stops the
  streaming does not hold where the token is a float literal too large for a double: \<^verbatim>\<open>float\<close> returns infinity, \<^verbatim>\<open>int\<close> raises \<^verbatim>\<open>OverflowError\<close>, the
  handler of line 260 does not catch it, and the lines after it are never read.
\<close>

theorem stream_stops_at_overflow:
  "stream_output [''1.0e309%'', ''50%''] =
     ([UpdateProgress ''1.0e309%''], Some ''cannot convert float infinity to integer'')"
  by (simp add: process_line_overflow_example)

text \<open>
  C3. With the streaming finished, the run reports success exactly for return code 0, a
  failure naming the code otherwise, and the executable-not-found message when the launch
  raises \<^verbatim>\<open>FileNotFoundError\<close> (lemmas \<open>run_completes\<close>, \<open>run_not_found\<close>,
  \<open>success_reaches_100\<close>). It does not hold of every run: when a line makes the
  streaming loop raise, the run never reaches \<^verbatim>\<open>process.wait()\<close> and reports a failure
  although the process exits with code 0.
\<close>

theorem run_fails_with_exit_code_0:
  "run join (\<lambda>command. Process [''1.0e309%''] 0) job =
     [UpdateProgress (''Starting download from: '' @ url job @ [CHR 0x0A]),
      UpdateProgress (''Saving to: '' @ output_path job @ [CHR 0x0A]),
      UpdateProgressBar 0 ''Downloading...'',
      UpdateProgress ''1.0e309%'',
      DownloadFinished False
        ''An unexpected error occurred: cannot convert float infinity to integer'']"
  by (simp add: run_def process_line_overflow_example)



subsection \<open>Sequencing\<close>

lemma and_then_Inr:
  "and_then m f w = (w', Inr b) \<longleftrightarrow> (\<exists>w1 a. m w = (w1, Inr a) \<and> f a w1 = (w', Inr b))"
  by (auto simp: and_then_def split: prod.splits sum.splits)

lemma and_then_Inl:
  "and_then m f w = (w', Inl e) \<longleftrightarrow>
     m w = (w', Inl e) \<or> (\<exists>w1 a. m w = (w1, Inr a) \<and> f a w1 = (w', Inl e))"
  by (auto simp: and_then_def split: prod.splits sum.splits)

subsection \<open>Listing a directory\<close>

lemma set_listdir: "set (listdir fs d) = {n. path_exists fs (Join d n)}"
proof -
  have "n \<in> set (listdir fs d) \<longleftrightarrow> Join d n \<in> fst ` set fs" for n
    by (force simp: listdir_def split: path.splits if_splits)
  then show ?thesis
    by (auto simp: path_exists_def map_of_eq_None_iff)
qed

lemma distinct_listdir: "distinct (listdir fs d)"
  by (simp add: listdir_def)

lemma listdir_single: "listdir fs d = [n] \<longleftrightarrow> {m. path_exists fs (Join d m)} = {n}"
proof
  assume "listdir fs d = [n]"
  then show "{m. path_exists fs (Join d m)} = {n}" using set_listdir [of fs d] by simp
next
  assume a: "{m. path_exists fs (Join d m)} = {n}"
  then have s: "set (listdir fs d) = {n}" by (simp add: set_listdir)
  show "listdir fs d = [n]"
  proof (cases "listdir fs d")
    case Nil
    with s show ?thesis by simp
  next
    case (Cons x xs)
    with s have x: "x = n" by auto
    have "xs = []"
    proof (cases xs)
      case Nil
      then show ?thesis .
    next
      case (Cons y ys)
      with s \<open>listdir fs d = x # xs\<close> have "y = n" by auto
      with x Cons \<open>listdir fs d = x # xs\<close> distinct_listdir [of fs d] show ?thesis by simp
    qed
    with x Cons show ?thesis by simp
  qed
qed

lemma extract_to_temp_dir_root:
  assumes "extract_to_temp_dir ev archive_path temp w = (w', Inr extracted_root_dir)"
  shows "extracted_root_dir = extraction_root (files w') temp"
  using assms by (auto simp: extract_to_temp_dir_def and_then_Inr)

text \<open>
  C5. When extraction returns, the extraction directory holding exactly one entry that is
  a directory gives that entry's path; in every other case (no entry, several entries, a
  single entry that is not a directory) the extraction directory itself is returned.
\<close>

theorem extraction_root_resolution:
  assumes "extract_to_temp_dir ev archive_path temp w = (w', Inr extracted_root_dir)"
  shows "(\<forall>n. {m. path_exists (files w') (Join temp m)} = {n} \<and> isdir (files w') (Join temp n)
              \<longrightarrow> extracted_root_dir = Join temp n) \<and>
         ((\<forall>n. {m. path_exists (files w') (Join temp m)} = {n} \<longrightarrow> \<not> isdir (files w') (Join temp n))
              \<longrightarrow> extracted_root_dir = temp)"
proof -
  have r: "extracted_root_dir = extraction_root (files w') temp"
    using assms by (rule extract_to_temp_dir_root)
  have "length xs = 1 \<longleftrightarrow> (\<exists>n. xs = [n])" for xs :: "string list"
    by (cases xs) auto
  then show ?thesis unfolding r extraction_root_def Let_def listdir_single [symmetric] by auto
qed

theorem extraction_root_resolution_witness:
  "extract_to_temp_dir linux_env (Join tools ''ffmpeg-release-amd64-static.tar.xz'')
       (Join tools ''ffmpeg_temp_extract'') fresh_world =
     (fst (extract_to_temp_dir linux_env (Join tools ''ffmpeg-release-amd64-static.tar.xz'')
             (Join tools ''ffmpeg_temp_extract'') fresh_world),
      Inr (Join (Join tools ''ffmpeg_temp_extract'') ''ffmpeg-7.0-amd64-static'')) \<and>
   {m. path_exists
         (files (fst (extract_to_temp_dir linux_env (Join tools ''ffmpeg-release-amd64-static.tar.xz'')
             (Join tools ''ffmpeg_temp_extract'') fresh_world)))
         (Join (Join tools ''ffmpeg_temp_extract'') m)} = {''ffmpeg-7.0-amd64-static''} \<and>
   extract_to_temp_dir flat_env (Join tools ''ffmpeg-latest.zip'')
       (Join tools ''ffmpeg_temp_extract'') stale_world =
     (fst (extract_to_temp_dir flat_env (Join tools ''ffmpeg-latest.zip'')
             (Join tools ''ffmpeg_temp_extract'') stale_world),
      Inr (Join tools ''ffmpeg_temp_extract'')) \<and>
   {m. path_exists
         (files (fst (extract_to_temp_dir flat_env (Join tools ''ffmpeg-latest.zip'')
             (Join tools ''ffmpeg_temp_extract'') stale_world)))
         (Join (Join tools ''ffmpeg_temp_extract'') m)} = {''ffmpeg''}"
proof -
  let ?T = "Join tools ''ffmpeg_temp_extract''"
  let ?r1 = "extract_to_temp_dir linux_env (Join tools ''ffmpeg-release-amd64-static.tar.xz'') ?T fresh_world"
  let ?r2 = "extract_to_temp_dir flat_env (Join tools ''ffmpeg-latest.zip'') ?T stale_world"
  have s1: "snd ?r1 = Inr (extraction_root (files (fst ?r1)) ?T)" by code_simp
  have l1: "listdir (files (fst ?r1)) ?T = [''ffmpeg-7.0-amd64-static'']" by code_simp
  have d1: "isdir (files (fst ?r1)) (Join ?T ''ffmpeg-7.0-amd64-static'')" by code_simp
  have s2: "snd ?r2 = Inr (extraction_root (files (fst ?r2)) ?T)" by code_simp
  have l2: "listdir (files (fst ?r2)) ?T = [''ffmpeg'']" by code_simp
  have d2: "\<not> isdir (files (fst ?r2)) (Join ?T ''ffmpeg'')" by code_simp
  have h1: "?r1 = (fst ?r1, Inr (extraction_root (files (fst ?r1)) ?T))"
    using s1 by (simp add: prod_eq_iff)
  have h2: "?r2 = (fst ?r2, Inr (extraction_root (files (fst ?r2)) ?T))"
    using s2 by (simp add: prod_eq_iff)
  have e1: "{m. path_exists (files (fst ?r1)) (Join ?T m)} = {''ffmpeg-7.0-amd64-static''}"
    using l1 by (simp only: listdir_single)
  have e2: "{m. path_exists (files (fst ?r2)) (Join ?T m)} = {''ffmpeg''}"
    using l2 by (simp only: listdir_single)
  from extraction_root_resolution [OF h1] e1 d1
  have c1: "extraction_root (files (fst ?r1)) ?T = Join ?T ''ffmpeg-7.0-amd64-static''" by blast
  have "\<forall>n. {m. path_exists (files (fst ?r2)) (Join ?T m)} = {n} \<longrightarrow> \<not> isdir (files (fst ?r2)) (Join ?T n)"
    using e2 d2 by auto
  with extraction_root_resolution [OF h2]
  have c2: "extraction_root (files (fst ?r2)) ?T = ?T" by blast
  show ?thesis using h1 h2 c1 c2 e1 e2 by simp
qed


text \<open>
  C4. When the tools directory, the downloader and both files of the transcoder pair
  exist, the run requests nothing from the network, leaves the file system as it is, and
  emits the two "already exists" lines and the success outcome.
\<close>

theorem setup_idempotent:
  assumes "path_exists (files w) tools_dir"
    and "path_exists (files w) (Join tools_dir (yt_dlp_filename (platform ev)))"
    and "path_exists (files w) (Join tools_dir ''ffmpeg'')"
    and "path_exists (files w) (Join tools_dir ''ffprobe'')"
  shows "requests (setup_run ev tools_dir w) = requests w \<and>
     files (setup_run ev tools_dir w) = files w \<and>
     signals (setup_run ev tools_dir w) = signals w @
        [UpdateStatus (yt_dlp_filename (platform ev) @ '' already exists.''),
         UpdateStatus ''ffmpeg and ffprobe already exist.'',
         SetupFinished True ''Tool setup completed successfully!'']"
  using assms
  by (simp add: setup_run_def setup_body_def setup_yt_dlp_def and_then_def skip_def emit_def Let_def)

theorem setup_idempotent_witness:
  "path_exists (files installed_world) tools \<and>
   path_exists (files installed_world) (Join tools (yt_dlp_filename (platform linux_env))) \<and>
   path_exists (files installed_world) (Join tools ''ffmpeg'') \<and>
   path_exists (files installed_world) (Join tools ''ffprobe'') \<and>
   requests (setup_run linux_env tools installed_world) = [] \<and>
   signals (setup_run linux_env tools installed_world) =
     [UpdateStatus ''yt-dlp already exists.'',
      UpdateStatus ''ffmpeg and ffprobe already exist.'',
      SetupFinished True ''Tool setup completed successfully!'']"
proof -
  have a: "path_exists (files installed_world) tools" by code_simp
  have b: "path_exists (files installed_world) (Join tools (yt_dlp_filename (platform linux_env)))"
    by code_simp
  have c: "path_exists (files installed_world) (Join tools ''ffmpeg'')" by code_simp
  have d: "path_exists (files installed_world) (Join tools ''ffprobe'')" by code_simp
  have n: "yt_dlp_filename (platform linux_env) = ''yt-dlp''" by code_simp
  show ?thesis using setup_idempotent [OF a b c d] a b c d n
    by (simp add: installed_world_def)
qed

subsection \<open>The file system operations, as maps\<close>

lemma map_of_filter_fst:
  "map_of (filter (\<lambda>e. P (fst e)) fs) q = (if P q then map_of fs q else None)"
  by (induction fs) auto

lemma map_of_put: "map_of (put fs p n) q = (if q = p then Some n else map_of fs q)"
  using map_of_filter_fst [of "\<lambda>x. x \<noteq> p" fs q] by (simp add: put_def)




lemma makedirs_fs_base:
  "\<not> path_exists fs (Base s) \<Longrightarrow> makedirs_fs fs (Base s) = Inr (put fs (Base s) Dir)"
  by (simp add: makedirs_fs_def ensure_dirs_def)

text \<open>
  C9. For a URL that is not empty the slot hands over a job whose destination is
  \<^verbatim>\<open>downloads\<close>; by then that path exists, it is a directory when it was absent
  before, and nothing else in the file system has changed, so no file has been written.
  The worker's \<open>run\<close> has no access to the file system at all: the media files are the
  external tool's.
\<close>

theorem start_download_creates_destination:
  assumes "strip url_text \<noteq> []"
  shows "\<exists>ui' fs' job.
     start_download url_text selected_format_text yt_dlp ffmpeg (ui, fs) = Inr ((ui', fs'), Some job) \<and>
     output_path job = ''downloads'' \<and>
     path_exists fs' (Base ''downloads'') \<and>
     (\<not> path_exists fs (Base ''downloads'') \<longrightarrow> isdir fs' (Base ''downloads'')) \<and>
     (\<forall>p. p \<noteq> Base ''downloads'' \<longrightarrow> map_of fs' p = map_of fs p)"
proof (cases "path_exists fs (Base ''downloads'')")
  case True
  with assms show ?thesis
    by (simp add: start_download_def Let_def)
next
  case False
  with assms show ?thesis
    by (simp add: start_download_def Let_def makedirs_fs_base map_of_put path_exists_def isdir_def)
qed

theorem start_download_creates_destination_witness:
  "strip '' https://example.org/v '' \<noteq> [] \<and>
   (\<exists>ui' fs' job.
     start_download '' https://example.org/v '' ''MP3 (Audio Only)'' ''yt-dlp'' ''ffmpeg''
       (ready_ui, []) = Inr ((ui', fs'), Some job) \<and>
     output_path job = ''downloads'' \<and>
     isdir fs' (Base ''downloads''))"
proof -
  have a: "strip '' https://example.org/v '' \<noteq> []" by code_simp
  have b: "\<not> path_exists [] (Base ''downloads'')" by (simp add: path_exists_def)
  from start_download_creates_destination
    [OF a, of "''MP3 (Audio Only)''" "''yt-dlp''" "''ffmpeg''" ready_ui "[]"] a b
  show ?thesis by blast
qed

subsection \<open>Paths\<close>


lemma under_size: "under d q \<Longrightarrow> size d \<le> size q"
  by (induction q) auto

lemma not_under_parent: "\<not> under (Join q n) q"
  using under_size [of "Join q n" q] by auto


lemma under_Join: "under d q \<Longrightarrow> under d (Join q n)"
  by simp




lemma not_under_sibling: "n \<noteq> m \<Longrightarrow> \<not> under (Join t n) (Join t m)"
  using not_under_parent by simp


subsection \<open>Rules for steps\<close>












subsection \<open>What a step leaves in place\<close>





















subsection \<open>Where exceptions come from\<close>





















lemma setup_run_returned:
  assumes "setup_body ev tools_dir w = (w', Inr u)"
  shows "setup_run ev tools_dir w = w' \<and>
     (\<exists>evs. signals w' = evs @ [SetupFinished True ''Tool setup completed successfully!''])"
proof -
  from assms obtain w1 where "emit (SetupFinished True ''Tool setup completed successfully!'') w1 = (w', Inr u)"
    unfolding setup_body_def and_then_Inr by blast
  then have "signals w' = signals w1 @ [SetupFinished True ''Tool setup completed successfully!'']"
    by (auto simp: emit_def)
  with assms show ?thesis by (simp add: setup_run_def)
qed



end
